theory Spec2Isabelle
  imports Main "HOL-Library.Sublist" "HOL-Library.Multiset"
begin

section \<open>Data model (phase.ts)\<close>

text \<open>
  A JavaScript object of type \<open>Record<string, string>\<close> is represented by the list of its
  own properties in the order in which they were created (inserted); the keys of a
  well-formed object are distinct.
\<close>

type_synonym js_object = "(string \<times> string) list"

text \<open>\<open>interface RewriterConfig\<close>.\<close>

record RewriterConfig =
  apiKey :: string
  modelName :: string
  prompt :: string
  debug :: bool
  examples :: js_object

text \<open>\<open>interface RewriteContext\<close>; the optional \<open>selectionPrompt\<close> is \<open>None\<close> when undefined.\<close>

record RewriteContext =
  "text" :: string
  selectionPrompt :: "string option"

definition DEFAULT_MODEL_NAME :: string where
  "DEFAULT_MODEL_NAME = ''gemini-2.0-flash''"

section \<open>The world the binding module runs in\<close>

text \<open>
  What \<open>vscode.workspace.getConfiguration("rewriter")\<close> answers to \<open>get\<close>: each key is
  either undefined (\<open>None\<close>) or holds a value.
\<close>

record settings =
  cfg_model :: "string option"
  cfg_prompt :: "string option"
  cfg_examples :: "js_object option"

text \<open>A thrown value: an \<open>Error\<close> with its message, or any other value.\<close>

datatype exn = Error string | NonError string

text \<open>
  The observable effects of the extension, in the order in which they happen: console
  output, messages shown to the user, commands dispatched, the network requests (the
  catalog fetch with its URL; the generation request with its key, model and parts) and
  the edit of the document.
\<close>

datatype effect =
    ConsoleWarn string "exn option"
  | ConsoleError string "exn option"
  | ShowErrorMessage string
  | ShowWarningMessage string "string list"
  | ExecuteCommand string
  | Fetch string
  | GenerateContent string string "string list"
  | EditorReplace string

text \<open>
  The module-level variable \<open>sessionModelName\<close> (\<open>None\<close> is \<open>undefined\<close>), the
  configuration store as it is read, and the effects so far.
\<close>

record world =
  sessionModelName :: "string option"
  store :: settings
  trace :: "effect list"

definition emit :: "effect \<Rightarrow> world \<Rightarrow> world" where
  "emit e w = w\<lparr>trace := trace w @ [e]\<rparr>"

section \<open>JavaScript operators used by the source\<close>

text \<open>
  \<open>a || b\<close> on values that are a string or undefined: \<open>a\<close> when it is truthy (a non-empty
  string), otherwise \<open>b\<close>.
\<close>

definition truthy :: "string option \<Rightarrow> bool" where
  "truthy v = (case v of None \<Rightarrow> False | Some s \<Rightarrow> s \<noteq> [])"

definition lor :: "string option \<Rightarrow> string option \<Rightarrow> string option" where
  "lor a b = (if truthy a then a else b)"

text \<open>\<open>a || d\<close> where \<open>d\<close> is a string: the result is a string.\<close>

definition lor_str :: "string option \<Rightarrow> string \<Rightarrow> string" where
  "lor_str a d = (case a of None \<Rightarrow> d | Some s \<Rightarrow> if s \<noteq> [] then s else d)"

text \<open>\<open>o || {}\<close> where \<open>o\<close> is an object or undefined: every object is truthy.\<close>

definition lor_obj :: "js_object option \<Rightarrow> js_object \<Rightarrow> js_object" where
  "lor_obj a d = (case a of None \<Rightarrow> d | Some obj \<Rightarrow> obj)"

section \<open>getRewriterConfig\<close>

text \<open>
  \<open>sessionModelName || config.get("model") || DEFAULT_MODEL_NAME\<close> associates to the left.
\<close>

definition getRewriterConfig :: "world \<Rightarrow> string \<Rightarrow> RewriterConfig" where
  "getRewriterConfig w key =
     (let config = store w;
          model = lor_str (lor (sessionModelName w) (cfg_model config)) DEFAULT_MODEL_NAME
      in \<lparr> apiKey = key,
           modelName = model,
           prompt = lor_str (cfg_prompt config) [],
           debug = True,
           examples = lor_obj (cfg_examples config) [] \<rparr>)"

section \<open>JavaScript library functions used by the source\<close>

text \<open>
  \<open>s.replace(pattern, replacement)\<close> with a string pattern replaces the first occurrence of
  the pattern only, wherever it is; a string without the pattern is returned unchanged.
  (The source's replacement is the empty string, so the \<open>$\<close> patterns of the replacement
  play no role.)
\<close>

fun String_replace :: "string \<Rightarrow> string \<Rightarrow> string \<Rightarrow> string" where
  "String_replace [] pat rep = (if pat = [] then rep else [])"
| "String_replace (c # cs) pat rep =
     (if prefix pat (c # cs) then rep @ drop (length pat) (c # cs)
      else c # String_replace cs pat rep)"

text \<open>\<open>xs.includes(x)\<close> on an array of strings.\<close>

definition Array_includes :: "string list \<Rightarrow> string \<Rightarrow> bool" where
  "Array_includes xs x = (x \<in> set xs)"

text \<open>
  \<open>Object.entries(obj)\<close> enumerates the own properties in the order of the language's
  OrdinaryOwnPropertyKeys: first the keys that are array indices (the canonical decimal
  numeral of an integer from 0 to 2^32 - 2), in ascending numeric order, then the other
  string keys in the order of their creation.
\<close>

definition is_digit :: "char \<Rightarrow> bool" where
  "is_digit c = (c \<in> set ''0123456789'')"

definition digit_value :: "char \<Rightarrow> nat" where
  "digit_value c = of_char c - 48"

definition decimal_value :: "string \<Rightarrow> nat" where
  "decimal_value s = foldl (\<lambda>n c. 10 * n + digit_value c) 0 s"

definition is_array_index :: "string \<Rightarrow> bool" where
  "is_array_index k =
     (case k of
        [] \<Rightarrow> False
      | c # cs \<Rightarrow>
          list_all is_digit k \<and> (if c = CHR ''0'' then cs = [] else True)
          \<and> decimal_value k \<le> 4294967294)"

definition Object_entries :: "js_object \<Rightarrow> (string \<times> string) list" where
  "Object_entries obj =
     sort_key (\<lambda>(k, v). decimal_value k) (filter (\<lambda>(k, v). is_array_index k) obj)
     @ filter (\<lambda>(k, v). \<not> is_array_index k) obj"

section \<open>generateRewrite\<close>

text \<open>
  The remote model client: given the key, the model name and the parts, the generation
  request either throws or yields the response text. The four safety settings passed to
  \<open>getGenerativeModel\<close> are constants of the source and belong to the client.
\<close>

type_synonym remote = "string \<Rightarrow> string \<Rightarrow> string list \<Rightarrow> exn + string"

text \<open>\<open>const promptText = context.selectionPrompt || config.prompt\<close>.\<close>

definition promptText :: "RewriterConfig \<Rightarrow> RewriteContext \<Rightarrow> string" where
  "promptText config context = lor_str (selectionPrompt context) (prompt config)"

text \<open>The \<open>for\<close> loop over the entries: two \<open>push\<close> calls per entry.\<close>

fun push_examples :: "string list \<Rightarrow> (string \<times> string) list \<Rightarrow> string list" where
  "push_examples parts [] = parts"
| "push_examples parts ((input, output) # rest) =
     push_examples ((parts @ [''input: '' @ input]) @ [''output: '' @ output]) rest"

text \<open>The array \<open>parts\<close> as it is when \<open>model.generateContent(parts)\<close> is called.\<close>

definition build_parts :: "RewriterConfig \<Rightarrow> RewriteContext \<Rightarrow> string list" where
  "build_parts config context =
     (let parts0 = [];
          pt = promptText config context;
          parts1 = (if pt \<noteq> [] then parts0 @ [''instruction: '' @ pt] else parts0);
          parts2 = push_examples parts1 (Object_entries (examples config));
          parts3 = parts2 @ [''input: '' @ text context];
          parts4 = parts3 @ [''output: '']
      in parts4)"

text \<open>
  The client construction at the head of \<open>generateRewrite\<close>:
  \<open>genAI.getGenerativeModel({ model: config.modelName, ... })\<close> throws when the model name
  is empty, before \<open>parts\<close> is built and before any request is made.
\<close>

definition missing_model_error :: exn where
  "missing_model_error =
     Error (''[GoogleGenerativeAI Error]: Must provide a model name. ''
            @ ''Example: genai.getGenerativeModel({ model: 'my-model-name' })'')"

definition getGenerativeModel :: "string \<Rightarrow> exn + string" where
  "getGenerativeModel model = (if model = [] then Inl missing_model_error else Inr model)"

definition generateRewrite ::
  "remote \<Rightarrow> RewriterConfig \<Rightarrow> RewriteContext \<Rightarrow> world \<Rightarrow> (exn + string) \<times> world" where
  "generateRewrite remote config context w =
     (case getGenerativeModel (modelName config) of
        Inl error \<Rightarrow> (Inl error, w)
      | Inr model \<Rightarrow>
          let parts = build_parts config context;
              w1 = emit (GenerateContent (apiKey config) model parts) w
          in (remote (apiKey config) model parts, w1))"

section \<open>listAvailableModels\<close>

record ModelInfo =
  name :: string
  displayName :: string
  supportedGenerationMethods :: "string list"

text \<open>
  The answer of \<open>fetch\<close>: the promise rejects, or resolves to a response with its \<open>ok\<close>
  flag, its status text and what \<open>json()\<close> gives: a thrown value, or the \<open>models\<close> array of
  the body at the type the source declares for it.
\<close>

record response =
  ok :: bool
  statusText :: string
  json :: "exn + ModelInfo list"

datatype fetch_result = FetchRejects exn | FetchResolves response

type_synonym fetch = "string \<Rightarrow> fetch_result"

definition models_url :: "string \<Rightarrow> string" where
  "models_url key = ''https://generativelanguage.googleapis.com/v1beta/models?key='' @ key"

text \<open>The body of the \<open>try\<close> block: \<open>Inl\<close> is a throw inside it.\<close>

definition fetch_models :: "fetch \<Rightarrow> string \<Rightarrow> exn + string list" where
  "fetch_models fetch key =
     (case fetch (models_url key) of
        FetchRejects e \<Rightarrow> Inl e
      | FetchResolves response \<Rightarrow>
          if \<not> ok response
          then Inl (Error (''Failed to fetch models: '' @ statusText response))
          else (case json response of
                  Inl e \<Rightarrow> Inl e
                | Inr models \<Rightarrow>
                    Inr (map (\<lambda>m. String_replace (name m) ''models/'' [])
                          (filter (\<lambda>m. Array_includes (supportedGenerationMethods m)
                                     ''generateContent'') models))))"

text \<open>The \<open>catch\<close> block logs the error and throws it again.\<close>

definition listAvailableModels ::
  "fetch \<Rightarrow> string \<Rightarrow> world \<Rightarrow> (exn + string list) \<times> world" where
  "listAvailableModels fetch key w =
     (let w1 = emit (Fetch (models_url key)) w
      in case fetch_models fetch key of
           Inl error \<Rightarrow> (Inl error, emit (ConsoleError ''Failed to list models:'' (Some error)) w1)
         | Inr names \<Rightarrow> (Inr names, w1))"

section \<open>updateModelConfig\<close>

datatype ConfigurationTarget = Global | Workspace | WorkspaceFolder

text \<open>
  The configuration object of \<open>vscode.workspace.getConfiguration()\<close> as the source uses
  it. \<open>inspect\<close> throws, or tells whether the inspection of the key is defined (a throw of
  \<open>getConfiguration\<close> itself reaches the same \<open>catch\<close> block and is an \<open>Inl\<close> here too);
  \<open>update\<close> throws, or gives the store as it is read after the write.
\<close>

record config_api =
  inspect :: "string \<Rightarrow> exn + bool"
  update :: "string \<Rightarrow> string \<Rightarrow> ConfigurationTarget \<Rightarrow> settings \<Rightarrow> exn + settings"

definition persistence_warning :: string where
  "persistence_warning = ''Failed to update configuration persistence (using session state):''"

definition inspection_warning :: string where
  "inspection_warning =
     ''Configuration 'rewriter.model' not found in inspection. Using session storage only.''"

text \<open>
  The returned promise: \<open>Inr ()\<close> when it resolves, \<open>Inl e\<close> when it rejects with \<open>e\<close>.
\<close>

definition updateModelConfig ::
  "config_api \<Rightarrow> string \<Rightarrow> world \<Rightarrow> (exn + unit) \<times> world" where
  "updateModelConfig config model w =
     (let w1 = w\<lparr>sessionModelName := Some model\<rparr>
      in case inspect config ''rewriter.model'' of
           Inl error \<Rightarrow> (Inr (), emit (ConsoleWarn persistence_warning (Some error)) w1)
         | Inr inspection \<Rightarrow>
             if \<not> inspection
             then (Inr (), emit (ConsoleWarn inspection_warning None) w1)
             else (case update config ''rewriter.model'' model Global (store w1) of
                     Inl error \<Rightarrow>
                       (Inr (), emit (ConsoleWarn persistence_warning (Some error)) w1)
                   | Inr written \<Rightarrow> (Inr (), w1\<lparr>store := written\<rparr>)))"

section \<open>replaceSelection\<close>

text \<open>
  \<open>editor.edit\<close> replaces the selection by the new text; the first argument is what the
  edit of the captured editor answers: \<open>Some e\<close> when it throws \<open>e\<close>.
\<close>

definition replaceSelection ::
  "(string \<Rightarrow> exn option) \<Rightarrow> string \<Rightarrow> world \<Rightarrow> (exn + unit) \<times> world" where
  "replaceSelection editor_edit newText w =
     (let w1 = emit (EditorReplace newText) w
      in case editor_edit newText of
           Some error \<Rightarrow> (Inl error, w1)
         | None \<Rightarrow> (Inr (), w1))"

section \<open>The command rewriter.rewrite\<close>

text \<open>
  What the command handler gets from the editor host: the selected text of the active
  editor (\<open>None\<close> without an editor), the stored secret, the button the user presses on the
  warning, the remote model client and the result of the edit (\<open>Some e\<close> when it throws).
\<close>

record host =
  activeTextEditor :: "string option"
  secret :: "string option"
  warning_choice :: "string option"
  model_client :: remote
  edit :: "string \<Rightarrow> exn option"

text \<open>The return points of the handler.\<close>

datatype rewrite_outcome =
    NoActiveEditor
  | NoTextSelected
  | MissingCredential
  | DeprecatedModelSelected
  | Failed exn
  | Succeeded string

definition deprecated_warning :: string where
  "deprecated_warning =
     ''The default model 'gemini-pro' is deprecated. ''
     @ ''Please select a valid Gemini model to proceed.''"

definition missing_key_message :: string where
  "missing_key_message =
     ''Please set the API key first by running the command 'Rewriter: Set API Key''
     @ [CHR 0x27]"

text \<open>The \<open>catch\<close> block of the handler.\<close>

definition rewrite_failed :: "exn \<Rightarrow> world \<Rightarrow> rewrite_outcome \<times> world" where
  "rewrite_failed error w =
     (let w1 = emit (ConsoleError ''Rewrite Error:'' (Some error)) w
      in (Failed error,
          emit (ShowErrorMessage
                 (case error of
                    Error message \<Rightarrow> ''Rewrite failed: '' @ message
                  | NonError _ \<Rightarrow> ''Rewrite failed with an unknown error.'')) w1))"

text \<open>The callback given to \<open>withProgress\<close>, for the captured text.\<close>

definition rewrite_task ::
  "host \<Rightarrow> string \<Rightarrow> string option \<Rightarrow> world \<Rightarrow> rewrite_outcome \<times> world" where
  "rewrite_task h txt args_prompt w =
     (case secret h of
        None \<Rightarrow> (MissingCredential, emit (ShowErrorMessage missing_key_message) w)
      | Some key \<Rightarrow>
         if key = []
         then (MissingCredential, emit (ShowErrorMessage missing_key_message) w)
         else
           let config = getRewriterConfig w key
           in if modelName config = ''gemini-pro''
              then
                let w1 = emit (ShowWarningMessage deprecated_warning [''Select Model'']) w;
                    w2 = (if warning_choice h = Some ''Select Model''
                          then emit (ExecuteCommand ''rewriter.selectModel'') w1 else w1)
                in (DeprecatedModelSelected, w2)
              else
                let rewriteContext = \<lparr> text = txt, selectionPrompt = args_prompt \<rparr>
                in case generateRewrite (model_client h) config rewriteContext w of
                     (Inl error, w1) \<Rightarrow> rewrite_failed error w1
                   | (Inr result, w1) \<Rightarrow>
                       (case replaceSelection (edit h) result w1 of
                          (Inl error, w2) \<Rightarrow> rewrite_failed error w2
                        | (Inr done, w2) \<Rightarrow> (Succeeded result, w2)))"

definition rewrite_command ::
  "host \<Rightarrow> string option \<Rightarrow> world \<Rightarrow> rewrite_outcome \<times> world" where
  "rewrite_command h args_prompt w =
     (case activeTextEditor h of
        None \<Rightarrow> (NoActiveEditor, emit (ShowErrorMessage ''No active editor found'') w)
      | Some txt \<Rightarrow>
          if txt = [] then (NoTextSelected, emit (ShowErrorMessage ''No text selected'') w)
          else rewrite_task h txt args_prompt w)"

text \<open>A network request is a catalog fetch or a generation request.\<close>

fun is_network_call :: "effect \<Rightarrow> bool" where
  "is_network_call (Fetch _) = True"
| "is_network_call (GenerateContent _ _ _) = True"
| "is_network_call _ = False"

section \<open>The life of the process\<close>

text \<open>
  The variable \<open>sessionModelName\<close> is private to the binding module, so after the start of
  the process the world changes only through calls of the module's functions, through the
  command handler, and through changes of the configuration store made outside. (The
  command \<open>rewriter.selectModel\<close> is a call of \<open>listAvailableModels\<close> followed, when the
  user picks a model, by a call of \<open>updateModelConfig\<close>.)
\<close>

datatype call =
    GetRewriterConfig string
  | GenerateRewrite remote RewriterConfig RewriteContext
  | ListAvailableModels fetch string
  | UpdateModelConfig config_api string
  | ReplaceSelection "string \<Rightarrow> exn option" string
  | RewriteCommand host "string option"
  | StoreChanged settings

fun perform :: "world \<Rightarrow> call \<Rightarrow> world" where
  "perform w (GetRewriterConfig key) = w"
| "perform w (GenerateRewrite r config context) = snd (generateRewrite r config context w)"
| "perform w (ListAvailableModels f key) = snd (listAvailableModels f key w)"
| "perform w (UpdateModelConfig config model) = snd (updateModelConfig config model w)"
| "perform w (ReplaceSelection editor_edit newText) =
     snd (replaceSelection editor_edit newText w)"
| "perform w (RewriteCommand h args_prompt) = snd (rewrite_command h args_prompt w)"
| "perform w (StoreChanged s) = w\<lparr>store := s\<rparr>"

fun is_update :: "call \<Rightarrow> bool" where
  "is_update (UpdateModelConfig _ _) = True"
| "is_update _ = False"

definition run :: "world \<Rightarrow> call list \<Rightarrow> world" where
  "run w calls = foldl perform w calls"

text \<open>The world at the start of the process.\<close>

definition initial_world :: "settings \<Rightarrow> world" where
  "initial_world s = \<lparr> sessionModelName = None, store = s, trace = [] \<rparr>"

section \<open>The claims in the words of the specification\<close>

text \<open>
  The model name as the specification words it: the session override when it is set,
  otherwise the persisted \<open>model\<close> when it is non-empty, otherwise the default.
\<close>

definition claimed_modelName :: "world \<Rightarrow> string" where
  "claimed_modelName w =
     (case sessionModelName w of
        Some s \<Rightarrow> s
      | None \<Rightarrow>
          (case cfg_model (store w) of
             None \<Rightarrow> DEFAULT_MODEL_NAME
           | Some m \<Rightarrow> if m \<noteq> [] then m else DEFAULT_MODEL_NAME))"

text \<open>
  The parts as the specification words them: the optional instruction, the example pairs
  in insertion order, the real input and the empty output.
\<close>

definition claimed_parts :: "RewriterConfig \<Rightarrow> RewriteContext \<Rightarrow> string list" where
  "claimed_parts config context =
     (if promptText config context \<noteq> []
      then [''instruction: '' @ promptText config context] else [])
     @ concat (map (\<lambda>(a, b). [''input: '' @ a, ''output: '' @ b]) (examples config))
     @ [''input: '' @ text context, ''output: '']"

text \<open>
  The names as the specification words them: a leading \<open>models/\<close> is stripped, a name
  without that prefix is left as it is.
\<close>

definition strip_models_prefix :: "string \<Rightarrow> string" where
  "strip_models_prefix s = (if prefix ''models/'' s then drop 7 s else s)"

definition claimed_names :: "ModelInfo list \<Rightarrow> string list" where
  "claimed_names models =
     map (\<lambda>m. strip_models_prefix (name m))
       (filter (\<lambda>m. ''generateContent'' \<in> set (supportedGenerationMethods m)) models)"

section \<open>Basic facts\<close>

lemma emit_simps [simp]:
  "sessionModelName (emit e w) = sessionModelName w"
  "store (emit e w) = store w"
  "trace (emit e w) = trace w @ [e]"
  by (simp_all add: emit_def)

lemma modelName_getRewriterConfig:
  "modelName (getRewriterConfig w key) =
     lor_str (lor (sessionModelName w) (cfg_model (store w))) DEFAULT_MODEL_NAME"
  by (simp add: getRewriterConfig_def Let_def)

lemma DEFAULT_MODEL_NAME_nonempty: "DEFAULT_MODEL_NAME \<noteq> []"
  by (simp add: DEFAULT_MODEL_NAME_def)

lemma lor_str_nonempty: "d \<noteq> [] \<Longrightarrow> lor_str a d \<noteq> []"
  by (simp add: lor_str_def split: option.splits)

lemma updateModelConfig_resolves: "fst (updateModelConfig config x w) = Inr ()"
  by (simp add: updateModelConfig_def Let_def split: sum.splits)

lemma updateModelConfig_session:
  "sessionModelName (snd (updateModelConfig config x w)) = Some x"
  by (simp add: updateModelConfig_def Let_def split: sum.splits)

lemma generateRewrite_session:
  "sessionModelName (snd (generateRewrite r config context w)) = sessionModelName w"
  by (simp add: generateRewrite_def getGenerativeModel_def Let_def)

lemma listAvailableModels_session:
  "sessionModelName (snd (listAvailableModels f key w)) = sessionModelName w"
  by (simp add: listAvailableModels_def Let_def split: sum.splits)

lemma replaceSelection_session:
  "sessionModelName (snd (replaceSelection editor_edit newText w)) = sessionModelName w"
  by (simp add: replaceSelection_def Let_def split: option.splits)

lemma rewrite_failed_session:
  "sessionModelName (snd (rewrite_failed e w)) = sessionModelName w"
  by (simp add: rewrite_failed_def Let_def)

lemma rewrite_task_session:
  "sessionModelName (snd (rewrite_task h txt a w)) = sessionModelName w"
  by (simp add: rewrite_task_def Let_def rewrite_failed_session generateRewrite_def
      getGenerativeModel_def replaceSelection_def
      split: option.splits sum.splits prod.splits)

lemma rewrite_command_session:
  "sessionModelName (snd (rewrite_command h a w)) = sessionModelName w"
  by (simp add: rewrite_command_def rewrite_task_session split: option.splits)

lemma perform_session:
  "\<not> is_update c \<Longrightarrow> sessionModelName (perform w c) = sessionModelName w"
  by (cases c)
     (simp_all add: generateRewrite_session listAvailableModels_session
        replaceSelection_session rewrite_command_session)

lemma run_session:
  "list_all (\<lambda>c. \<not> is_update c) calls \<Longrightarrow> sessionModelName (run w calls) = sessionModelName w"
  unfolding run_def
  by (induction calls arbitrary: w) (simp_all add: perform_session)

section \<open>Configuration resolution\<close>

text \<open>
  C1, as stated, at a world where the session override holds the empty string and the
  persisted \<open>model\<close> is \<open>gemini-1.5-pro\<close>: the override is set, so the claim gives the
  override (the empty string), and the source gives the persisted name.
\<close>

theorem getRewriterConfig_empty_override_counterexample:
  "claimed_modelName
     \<lparr> sessionModelName = Some [],
       store = \<lparr> cfg_model = Some ''gemini-1.5-pro'', cfg_prompt = None,
                 cfg_examples = None \<rparr>,
       trace = [] \<rparr> = []
   \<and> modelName (getRewriterConfig
       \<lparr> sessionModelName = Some [],
         store = \<lparr> cfg_model = Some ''gemini-1.5-pro'', cfg_prompt = None,
                   cfg_examples = None \<rparr>,
         trace = [] \<rparr> ''key'') = ''gemini-1.5-pro''"
  by (simp add: modelName_getRewriterConfig lor_def lor_str_def truthy_def claimed_modelName_def)

text \<open>
  C1, amended. For every credential, session variable and configuration store, the model
  name of \<open>getRewriterConfig\<close> is the session override when that is set to a non-empty
  string, whatever the store holds; otherwise the persisted \<open>model\<close> when that is a
  non-empty string; otherwise, the override being unset or empty and the persisted \<open>model\<close>
  absent or empty, the default model name.
\<close>

theorem getRewriterConfig_modelName_precedence:
  "(sessionModelName w = Some s \<and> s \<noteq> [] \<longrightarrow> modelName (getRewriterConfig w key) = s)
   \<and> ((sessionModelName w = None \<or> sessionModelName w = Some [])
        \<and> cfg_model (store w) = Some m \<and> m \<noteq> []
      \<longrightarrow> modelName (getRewriterConfig w key) = m)
   \<and> ((sessionModelName w = None \<or> sessionModelName w = Some [])
        \<and> (cfg_model (store w) = None \<or> cfg_model (store w) = Some [])
      \<longrightarrow> modelName (getRewriterConfig w key) = DEFAULT_MODEL_NAME)"
  by (auto simp add: modelName_getRewriterConfig lor_def lor_str_def truthy_def)

theorem getRewriterConfig_modelName_precedence_witness:
  "modelName (getRewriterConfig
      \<lparr> sessionModelName = Some ''gemini-2.5-pro'',
        store = \<lparr> cfg_model = Some ''gemini-1.5-pro'', cfg_prompt = None,
                  cfg_examples = None \<rparr>,
        trace = [] \<rparr> ''key'') = ''gemini-2.5-pro''
   \<and> modelName (getRewriterConfig
      \<lparr> sessionModelName = None,
        store = \<lparr> cfg_model = Some ''gemini-1.5-pro'', cfg_prompt = None,
                  cfg_examples = None \<rparr>,
        trace = [] \<rparr> ''key'') = ''gemini-1.5-pro''
   \<and> modelName (getRewriterConfig
      \<lparr> sessionModelName = None,
        store = \<lparr> cfg_model = Some [], cfg_prompt = None, cfg_examples = None \<rparr>,
        trace = [] \<rparr> ''key'') = ''gemini-2.0-flash''"
  using
    getRewriterConfig_modelName_precedence
      [of "\<lparr> sessionModelName = Some ''gemini-2.5-pro'',
             store = \<lparr> cfg_model = Some ''gemini-1.5-pro'', cfg_prompt = None,
                       cfg_examples = None \<rparr>,
             trace = [] \<rparr>" "''gemini-2.5-pro''" "''key''" "[]"]
    getRewriterConfig_modelName_precedence
      [of "\<lparr> sessionModelName = None,
             store = \<lparr> cfg_model = Some ''gemini-1.5-pro'', cfg_prompt = None,
                       cfg_examples = None \<rparr>,
             trace = [] \<rparr>" "[]" "''key''" "''gemini-1.5-pro''"]
    getRewriterConfig_modelName_precedence
      [of "\<lparr> sessionModelName = None,
             store = \<lparr> cfg_model = Some [], cfg_prompt = None, cfg_examples = None \<rparr>,
             trace = [] \<rparr>" "[]" "''key''" "[]"]
  by (simp add: DEFAULT_MODEL_NAME_def)

text \<open>
  C10. For every credential and every world, the configuration returned by
  \<open>getRewriterConfig\<close> has \<open>debug\<close> equal to true: the value is a constant of the source and
  depends on neither the session variable nor the configuration store.
\<close>

theorem getRewriterConfig_debug_true:
  "debug (getRewriterConfig w key) = True"
  by (simp add: getRewriterConfig_def Let_def)

text \<open>
  C8. After \<open>updateModelConfig\<close> is called with the empty string the session variable holds
  the empty string, and \<open>getRewriterConfig\<close> then gives the persisted \<open>model\<close> when that is
  non-empty and the default otherwise: the empty override counts as unset. The model name
  it gives is never the empty string.
\<close>

theorem empty_selection_never_effective:
  "sessionModelName (snd (updateModelConfig config [] w)) = Some []
   \<and> modelName (getRewriterConfig (snd (updateModelConfig config [] w)) key) =
       (case cfg_model (store (snd (updateModelConfig config [] w))) of
          None \<Rightarrow> DEFAULT_MODEL_NAME
        | Some m \<Rightarrow> if m \<noteq> [] then m else DEFAULT_MODEL_NAME)
   \<and> modelName (getRewriterConfig (snd (updateModelConfig config [] w)) key) \<noteq> []"
proof -
  let ?w = "snd (updateModelConfig config [] w)"
  have s: "sessionModelName ?w = Some []"
    by (rule updateModelConfig_session)
  have m: "modelName (getRewriterConfig ?w key) =
       (case cfg_model (store ?w) of
          None \<Rightarrow> DEFAULT_MODEL_NAME
        | Some m \<Rightarrow> if m \<noteq> [] then m else DEFAULT_MODEL_NAME)"
    by (simp add: modelName_getRewriterConfig s lor_def truthy_def lor_str_def)
  have n: "modelName (getRewriterConfig ?w key) \<noteq> []"
    by (simp add: modelName_getRewriterConfig lor_str_nonempty DEFAULT_MODEL_NAME_nonempty)
  from s m n show ?thesis by blast
qed

section \<open>Model selection\<close>

text \<open>
  C2. For every model name \<open>x\<close> and every behaviour of the configuration store, the promise
  of \<open>updateModelConfig x\<close> resolves and the session variable is \<open>x\<close> afterwards. When the
  persisted write throws, nothing reaches the caller: the only other change is one warning
  on the console that carries the thrown value. When the write succeeds, the session
  variable is still \<open>x\<close>, not cleared. It stays \<open>x\<close> through every later sequence of calls
  and store changes of the process that contains no further \<open>updateModelConfig\<close>.
\<close>

theorem updateModelConfig_session_override:
  "fst (updateModelConfig config x w) = Inr ()
   \<and> sessionModelName (snd (updateModelConfig config x w)) = Some x
   \<and> (inspect config ''rewriter.model'' = Inr True
        \<and> update config ''rewriter.model'' x Global (store w) = Inl e
      \<longrightarrow> snd (updateModelConfig config x w) =
            w\<lparr>sessionModelName := Some x,
              trace := trace w @ [ConsoleWarn persistence_warning (Some e)]\<rparr>)
   \<and> (inspect config ''rewriter.model'' = Inr True
        \<and> update config ''rewriter.model'' x Global (store w) = Inr written
      \<longrightarrow> snd (updateModelConfig config x w) =
            w\<lparr>sessionModelName := Some x, store := written\<rparr>)
   \<and> (list_all (\<lambda>c. \<not> is_update c) calls
      \<longrightarrow> sessionModelName (run (snd (updateModelConfig config x w)) calls) = Some x)"
proof -
  have throws: "snd (updateModelConfig config x w) =
      w\<lparr>sessionModelName := Some x,
        trace := trace w @ [ConsoleWarn persistence_warning (Some e)]\<rparr>"
    if "inspect config ''rewriter.model'' = Inr True"
      and "update config ''rewriter.model'' x Global (store w) = Inl e"
    using that by (simp add: updateModelConfig_def Let_def emit_def)
  have writes: "snd (updateModelConfig config x w) =
      w\<lparr>sessionModelName := Some x, store := written\<rparr>"
    if "inspect config ''rewriter.model'' = Inr True"
      and "update config ''rewriter.model'' x Global (store w) = Inr written"
    using that by (simp add: updateModelConfig_def Let_def)
  have later: "sessionModelName (run (snd (updateModelConfig config x w)) calls) = Some x"
    if "list_all (\<lambda>c. \<not> is_update c) calls"
    using that by (simp add: run_session updateModelConfig_session)
  show ?thesis
    using throws writes later updateModelConfig_resolves updateModelConfig_session
    by blast
qed

theorem updateModelConfig_session_override_witness:
  "fst (updateModelConfig
          \<lparr> inspect = (\<lambda>k. Inr True), update = (\<lambda>k v t s. Inl (Error ''EACCES'')) \<rparr>
          ''gemini-2.5-pro'' (initial_world \<lparr> cfg_model = Some ''gemini-pro'',
             cfg_prompt = None, cfg_examples = None \<rparr>)) = Inr ()
   \<and> snd (updateModelConfig
          \<lparr> inspect = (\<lambda>k. Inr True), update = (\<lambda>k v t s. Inl (Error ''EACCES'')) \<rparr>
          ''gemini-2.5-pro'' (initial_world \<lparr> cfg_model = Some ''gemini-pro'',
             cfg_prompt = None, cfg_examples = None \<rparr>)) =
       \<lparr> sessionModelName = Some ''gemini-2.5-pro'',
         store = \<lparr> cfg_model = Some ''gemini-pro'', cfg_prompt = None, cfg_examples = None \<rparr>,
         trace = [ConsoleWarn persistence_warning (Some (Error ''EACCES''))] \<rparr>
   \<and> snd (updateModelConfig
          \<lparr> inspect = (\<lambda>k. Inr True),
            update = (\<lambda>k v t s. Inr (s\<lparr>cfg_model := Some v\<rparr>)) \<rparr>
          ''gemini-2.5-pro'' (initial_world \<lparr> cfg_model = Some ''gemini-pro'',
             cfg_prompt = None, cfg_examples = None \<rparr>)) =
       \<lparr> sessionModelName = Some ''gemini-2.5-pro'',
         store = \<lparr> cfg_model = Some ''gemini-2.5-pro'', cfg_prompt = None,
                   cfg_examples = None \<rparr>,
         trace = [] \<rparr>
   \<and> list_all (\<lambda>c. \<not> is_update c)
        [GetRewriterConfig ''key'',
         StoreChanged \<lparr> cfg_model = Some ''gemini-1.5-pro'', cfg_prompt = None,
                        cfg_examples = None \<rparr>]
   \<and> sessionModelName
        (run (snd (updateModelConfig
                \<lparr> inspect = (\<lambda>k. Inr True),
                  update = (\<lambda>k v t s. Inr (s\<lparr>cfg_model := Some v\<rparr>)) \<rparr>
                ''gemini-2.5-pro'' (initial_world \<lparr> cfg_model = Some ''gemini-pro'',
                   cfg_prompt = None, cfg_examples = None \<rparr>)))
          [GetRewriterConfig ''key'',
           StoreChanged \<lparr> cfg_model = Some ''gemini-1.5-pro'', cfg_prompt = None,
                          cfg_examples = None \<rparr>]) = Some ''gemini-2.5-pro''"
  using
    updateModelConfig_session_override
      [of "\<lparr> inspect = (\<lambda>k. Inr True), update = (\<lambda>k v t s. Inl (Error ''EACCES'')) \<rparr>"
          "''gemini-2.5-pro''"
          "initial_world \<lparr> cfg_model = Some ''gemini-pro'', cfg_prompt = None,
             cfg_examples = None \<rparr>"
          "Error ''EACCES''"
          "\<lparr> cfg_model = None, cfg_prompt = None, cfg_examples = None \<rparr>" "[]"]
    updateModelConfig_session_override
      [of "\<lparr> inspect = (\<lambda>k. Inr True),
             update = (\<lambda>k v t s. Inr (s\<lparr>cfg_model := Some v\<rparr>)) \<rparr>"
          "''gemini-2.5-pro''"
          "initial_world \<lparr> cfg_model = Some ''gemini-pro'', cfg_prompt = None,
             cfg_examples = None \<rparr>"
          "Error ''EACCES''"
          "\<lparr> cfg_model = Some ''gemini-2.5-pro'', cfg_prompt = None, cfg_examples = None \<rparr>"
          "[GetRewriterConfig ''key'',
            StoreChanged \<lparr> cfg_model = Some ''gemini-1.5-pro'', cfg_prompt = None,
                           cfg_examples = None \<rparr>]"]
  by (simp add: initial_world_def run_def)

section \<open>Prompt assembly\<close>

lemma push_examples_concat:
  "push_examples parts es =
     parts @ concat (map (\<lambda>(a, b). [''input: '' @ a, ''output: '' @ b]) es)"
  by (induction es arbitrary: parts) auto

lemma Object_entries_mset: "mset (Object_entries obj) = mset obj"
  by (simp add: Object_entries_def)

lemma Object_entries_no_index:
  "list_all (\<lambda>(k, v). \<not> is_array_index k) obj \<Longrightarrow> Object_entries obj = obj"
proof -
  assume a: "list_all (\<lambda>(k, v). \<not> is_array_index k) obj"
  then have "filter (\<lambda>(k, v). is_array_index k) obj = []"
    by (auto simp: list_all_iff filter_empty_conv)
  moreover from a have "filter (\<lambda>(k, v). \<not> is_array_index k) obj = obj"
    by (auto simp: list_all_iff filter_id_conv)
  ultimately show ?thesis by (simp add: Object_entries_def)
qed

lemma Object_entries_split:
  "\<exists>idx. Object_entries obj = idx @ filter (\<lambda>(k, v). \<not> is_array_index k) obj
     \<and> mset idx = mset (filter (\<lambda>(k, v). is_array_index k) obj)
     \<and> sorted (map (\<lambda>(k, v). decimal_value k) idx)"
  by (rule exI [of _ "sort_key (\<lambda>(k, v). decimal_value k)
        (filter (\<lambda>(k, v). is_array_index k) obj)"])
     (simp add: Object_entries_def)



text \<open>
  C3, as stated, at an examples object into which the key \<open>2\<close> was inserted before the key
  \<open>1\<close>: the claim puts the pair of \<open>2\<close> first, and the source, which iterates
  \<open>Object.entries\<close>, sends the pair of \<open>1\<close> first.
\<close>

theorem build_parts_insertion_order_counterexample:
  "claimed_parts
      \<lparr> apiKey = ''key'', modelName = ''gemini-2.0-flash'', prompt = [], debug = True,
        examples = [(''2'', ''two''), (''1'', ''one'')] \<rparr>
      \<lparr> text = ''3'', selectionPrompt = None \<rparr>
     = [''input: 2'', ''output: two'', ''input: 1'', ''output: one'', ''input: 3'', ''output: '']
   \<and> build_parts
      \<lparr> apiKey = ''key'', modelName = ''gemini-2.0-flash'', prompt = [], debug = True,
        examples = [(''2'', ''two''), (''1'', ''one'')] \<rparr>
      \<lparr> text = ''3'', selectionPrompt = None \<rparr>
     = [''input: 1'', ''output: one'', ''input: 2'', ''output: two'', ''input: 3'', ''output: '']"
  by (simp add: claimed_parts_def build_parts_def promptText_def lor_str_def
      Object_entries_def is_array_index_def is_digit_def decimal_value_def digit_value_def)

text \<open>
  C3, amended. For every configuration and request, the parts built by \<open>generateRewrite\<close>
  are, in this order: the instruction part, present exactly when the active instruction is
  non-empty; then, for each example pair in the order in which \<open>Object.entries\<close>
  enumerates the examples object, an \<open>input:\<close> part immediately followed by its \<open>output:\<close>
  part; then an \<open>input:\<close> part with the selected text; and last an empty \<open>output:\<close>
  part. \<open>Object.entries\<close> enumerates every pair once: the pairs whose key is an array index
  first, in ascending numeric order, then the other pairs in insertion order. So the
  example pairs are in insertion order whenever no key is an array index. Whenever the
  model name of the configuration is non-empty, the one generation request of
  \<open>generateRewrite\<close> carries exactly these parts; at an empty model name the client
  construction throws and no request is made.
\<close>

theorem build_parts_order:
  "build_parts config context =
     (if promptText config context \<noteq> []
      then [''instruction: '' @ promptText config context] else [])
     @ concat (map (\<lambda>(a, b). [''input: '' @ a, ''output: '' @ b])
         (Object_entries (examples config)))
     @ [''input: '' @ text context, ''output: '']
   \<and> last (build_parts config context) = ''output: ''
   \<and> (modelName config \<noteq> []
      \<longrightarrow> trace (snd (generateRewrite r config context w)) =
            trace w @ [GenerateContent (apiKey config) (modelName config)
                         (build_parts config context)])
   \<and> (modelName config = []
      \<longrightarrow> generateRewrite r config context w = (Inl missing_model_error, w))
   \<and> mset (Object_entries (examples config)) = mset (examples config)
   \<and> (\<exists>idx. Object_entries (examples config) =
                idx @ filter (\<lambda>(k, v). \<not> is_array_index k) (examples config)
            \<and> mset idx = mset (filter (\<lambda>(k, v). is_array_index k) (examples config))
            \<and> sorted (map (\<lambda>(k, v). decimal_value k) idx))
   \<and> (list_all (\<lambda>(k, v). \<not> is_array_index k) (examples config)
      \<longrightarrow> Object_entries (examples config) = examples config)"
proof -
  have parts: "build_parts config context =
     (if promptText config context \<noteq> []
      then [''instruction: '' @ promptText config context] else [])
     @ concat (map (\<lambda>(a, b). [''input: '' @ a, ''output: '' @ b])
         (Object_entries (examples config)))
     @ [''input: '' @ text context, ''output: '']"
    by (simp add: build_parts_def Let_def push_examples_concat)
  have final: "last (build_parts config context) = ''output: ''"
    by (simp add: build_parts_def Let_def)
  have sent: "trace (snd (generateRewrite r config context w)) =
       trace w @ [GenerateContent (apiKey config) (modelName config)
                    (build_parts config context)]"
    if "modelName config \<noteq> []"
    using that by (simp add: generateRewrite_def getGenerativeModel_def Let_def)
  have refused: "generateRewrite r config context w = (Inl missing_model_error, w)"
    if "modelName config = []"
    using that by (simp add: generateRewrite_def getGenerativeModel_def)
  show ?thesis
    using parts final sent refused Object_entries_mset [of "examples config"]
      Object_entries_split [of "examples config"]
      Object_entries_no_index [of "examples config"]
    by blast
qed

theorem build_parts_order_witness:
  "list_all (\<lambda>(k, v). \<not> is_array_index k) [(''teh'', ''the''), (''adn'', ''and'')]
   \<and> build_parts
      \<lparr> apiKey = ''key'', modelName = ''gemini-2.0-flash'', prompt = ''Fix typos'',
        debug = True, examples = [(''teh'', ''the''), (''adn'', ''and'')] \<rparr>
      \<lparr> text = ''helo'', selectionPrompt = None \<rparr>
     = [''instruction: Fix typos'', ''input: teh'', ''output: the'', ''input: adn'',
        ''output: and'', ''input: helo'', ''output: '']
   \<and> trace (snd (generateRewrite (\<lambda>k m parts. Inr ''hello'')
      \<lparr> apiKey = ''key'', modelName = ''gemini-2.0-flash'', prompt = ''Fix typos'',
        debug = True, examples = [(''teh'', ''the''), (''adn'', ''and'')] \<rparr>
      \<lparr> text = ''helo'', selectionPrompt = None \<rparr>
      (initial_world \<lparr> cfg_model = None, cfg_prompt = None, cfg_examples = None \<rparr>)))
     = [GenerateContent ''key'' ''gemini-2.0-flash''
          [''instruction: Fix typos'', ''input: teh'', ''output: the'', ''input: adn'',
           ''output: and'', ''input: helo'', ''output: '']]
   \<and> generateRewrite (\<lambda>k m parts. Inr ''hello'')
      \<lparr> apiKey = ''key'', modelName = [], prompt = ''Fix typos'',
        debug = True, examples = [(''teh'', ''the''), (''adn'', ''and'')] \<rparr>
      \<lparr> text = ''helo'', selectionPrompt = None \<rparr>
      (initial_world \<lparr> cfg_model = None, cfg_prompt = None, cfg_examples = None \<rparr>)
     = (Inl missing_model_error,
        initial_world \<lparr> cfg_model = None, cfg_prompt = None, cfg_examples = None \<rparr>)"
proof -
  let ?config = "\<lparr> apiKey = ''key'', modelName = ''gemini-2.0-flash'', prompt = ''Fix typos'',
        debug = True, examples = [(''teh'', ''the''), (''adn'', ''and'')] \<rparr>"
  let ?unnamed = "\<lparr> apiKey = ''key'', modelName = [], prompt = ''Fix typos'',
        debug = True, examples = [(''teh'', ''the''), (''adn'', ''and'')] \<rparr>"
  let ?request = "\<lparr> text = ''helo'', selectionPrompt = None \<rparr>"
  let ?r = "\<lambda>(k :: string) (m :: string) (parts :: string list).
              (Inr ''hello'' :: exn + string)"
  let ?w = "initial_world \<lparr> cfg_model = None, cfg_prompt = None, cfg_examples = None \<rparr>"
  have no_index: "list_all (\<lambda>(k, v). \<not> is_array_index k) (examples ?config)"
    by (simp add: is_array_index_def is_digit_def)
  have pt: "promptText ?config ?request = ''Fix typos''"
    by (simp add: promptText_def lor_str_def)
  have named: "modelName ?config \<noteq> []"
    by simp
  have unnamed: "modelName ?unnamed = []"
    by simp
  from build_parts_order [of ?config ?request ?r ?w]
  have eq: "build_parts ?config ?request =
     (if promptText ?config ?request \<noteq> []
      then [''instruction: '' @ promptText ?config ?request] else [])
     @ concat (map (\<lambda>(a, b). [''input: '' @ a, ''output: '' @ b])
         (Object_entries (examples ?config)))
     @ [''input: '' @ text ?request, ''output: '']"
    and sent: "modelName ?config \<noteq> []
      \<longrightarrow> trace (snd (generateRewrite ?r ?config ?request ?w)) =
            trace ?w @ [GenerateContent (apiKey ?config) (modelName ?config)
                          (build_parts ?config ?request)]"
    and same: "list_all (\<lambda>(k, v). \<not> is_array_index k) (examples ?config)
      \<longrightarrow> Object_entries (examples ?config) = examples ?config"
    by blast+
  from build_parts_order [of ?unnamed ?request ?r ?w]
  have refused: "modelName ?unnamed = []
      \<longrightarrow> generateRewrite ?r ?unnamed ?request ?w = (Inl missing_model_error, ?w)"
    by blast
  from same no_index have "Object_entries (examples ?config) = examples ?config"
    by blast
  with eq pt have built: "build_parts ?config ?request =
      [''instruction: Fix typos'', ''input: teh'', ''output: the'', ''input: adn'',
        ''output: and'', ''input: helo'', ''output: '']"
    by simp
  from sent named
  have "trace (snd (generateRewrite ?r ?config ?request ?w)) =
      trace ?w @ [GenerateContent (apiKey ?config) (modelName ?config)
                    (build_parts ?config ?request)]"
    by blast
  with built
  have request: "trace (snd (generateRewrite ?r ?config ?request ?w)) =
      [GenerateContent ''key'' ''gemini-2.0-flash''
          [''instruction: Fix typos'', ''input: teh'', ''output: the'', ''input: adn'',
           ''output: and'', ''input: helo'', ''output: '']]"
    by (simp add: initial_world_def)
  from refused unnamed
  have none_sent: "generateRewrite ?r ?unnamed ?request ?w = (Inl missing_model_error, ?w)"
    by blast
  from no_index
  have literal: "list_all (\<lambda>(k, v). \<not> is_array_index k)
      [(''teh'', ''the''), (''adn'', ''and'')]"
    by simp
  from literal built request none_sent show ?thesis
    by blast
qed

section \<open>The model catalog\<close>

lemma String_replace_at_start:
  "prefix pat s \<Longrightarrow> String_replace s pat rep = rep @ drop (length pat) s"
  by (cases s) auto

lemma String_replace_first:
  "\<forall>j<length a. \<not> prefix pat (drop j (a @ pat @ b)) \<Longrightarrow>
     String_replace (a @ pat @ b) pat rep = a @ rep @ b"
proof (induction a)
  case Nil
  have "prefix pat (pat @ b)" by simp
  then have "String_replace (pat @ b) pat rep = rep @ drop (length pat) (pat @ b)"
    by (rule String_replace_at_start)
  then show ?case by simp
next
  case (Cons x a)
  from Cons.prems have here: "\<not> prefix pat (x # a @ pat @ b)"
    by (auto dest: spec [of _ 0])
  have "\<forall>j<length a. \<not> prefix pat (drop j (a @ pat @ b))"
  proof (intro allI impI)
    fix j assume "j < length a"
    then have "Suc j < length (x # a)" by simp
    with Cons.prems have "\<not> prefix pat (drop (Suc j) ((x # a) @ pat @ b))" by blast
    then show "\<not> prefix pat (drop j (a @ pat @ b))" by simp
  qed
  then have "String_replace (a @ pat @ b) pat rep = a @ rep @ b"
    by (rule Cons.IH)
  with here show ?case by simp
qed

lemma String_replace_prefix:
  "prefix ''models/'' s \<Longrightarrow> String_replace s ''models/'' [] = strip_models_prefix s"
proof -
  assume p: "prefix ''models/'' s"
  have "length ''models/'' = 7" by simp
  with String_replace_at_start [OF p, of "[]"] p show ?thesis
    by (simp only: strip_models_prefix_def if_True append_Nil)
qed

lemma fetch_models_ok:
  "fetch (models_url key) = FetchResolves response \<Longrightarrow> ok response \<Longrightarrow>
   json response = Inr models \<Longrightarrow>
   fetch_models fetch key =
     Inr (map (\<lambda>m. String_replace (name m) ''models/'' [])
            (filter (\<lambda>m. Array_includes (supportedGenerationMethods m) ''generateContent'')
               models))"
  by (simp add: fetch_models_def)

lemma listAvailableModels_result:
  "fst (listAvailableModels fetch key w) = fetch_models fetch key"
  by (simp add: listAvailableModels_def Let_def split: sum.splits)

text \<open>
  C6. The source at a successful response whose only entry is named \<open>x/models/foo\<close> and
  supports \<open>generateContent\<close>: the name has no \<open>models/\<close> prefix, so the names as the claim
  words them are \<open>[x/models/foo]\<close>, and the source returns \<open>[x/foo]\<close>. On the example of
  the claim the source returns \<open>[foo]\<close>.
\<close>

theorem listAvailableModels_inner_occurrence:
  "fst (listAvailableModels
         (\<lambda>url. FetchResolves \<lparr> ok = True, statusText = ''OK'',
            json = Inr [\<lparr> name = ''x/models/foo'', displayName = ''Foo'',
                         supportedGenerationMethods = [''generateContent''] \<rparr>] \<rparr>)
         ''key'' (initial_world \<lparr> cfg_model = None, cfg_prompt = None,
                     cfg_examples = None \<rparr>)) = Inr [''x/foo'']
   \<and> claimed_names [\<lparr> name = ''x/models/foo'', displayName = ''Foo'',
                       supportedGenerationMethods = [''generateContent''] \<rparr>]
       = [''x/models/foo'']
   \<and> fst (listAvailableModels
         (\<lambda>url. FetchResolves \<lparr> ok = True, statusText = ''OK'',
            json = Inr [\<lparr> name = ''models/foo'', displayName = ''Foo'',
                         supportedGenerationMethods = [''generateContent''] \<rparr>,
                       \<lparr> name = ''models/bar'', displayName = ''Bar'',
                         supportedGenerationMethods = [''embedContent''] \<rparr>] \<rparr>)
         ''key'' (initial_world \<lparr> cfg_model = None, cfg_prompt = None,
                     cfg_examples = None \<rparr>)) = Inr [''foo'']"
  by (simp add: listAvailableModels_result fetch_models_def Array_includes_def
      claimed_names_def strip_models_prefix_def)

text \<open>
  C7. Whenever the transport call does not succeed, \<open>listAvailableModels\<close> throws to its
  caller and returns no list: when \<open>fetch\<close> rejects, it throws the value \<open>fetch\<close> rejected
  with; when the response is not ok, it throws an error that carries the status text.
\<close>

theorem listAvailableModels_transport_failure:
  "(fetch (models_url key) = FetchRejects e
      \<longrightarrow> fst (listAvailableModels fetch key w) = Inl e
          \<and> (\<forall>names. fst (listAvailableModels fetch key w) \<noteq> Inr names))
   \<and> (fetch (models_url key) = FetchResolves response \<and> \<not> ok response
      \<longrightarrow> fst (listAvailableModels fetch key w) =
            Inl (Error (''Failed to fetch models: '' @ statusText response))
          \<and> (\<forall>names. fst (listAvailableModels fetch key w) \<noteq> Inr names))"
  by (simp add: listAvailableModels_result fetch_models_def)

theorem listAvailableModels_transport_failure_witness:
  "fst (listAvailableModels (\<lambda>url. FetchRejects (Error ''getaddrinfo ENOTFOUND'')) ''key''
         (initial_world \<lparr> cfg_model = None, cfg_prompt = None, cfg_examples = None \<rparr>))
     = Inl (Error ''getaddrinfo ENOTFOUND'')
   \<and> fst (listAvailableModels
         (\<lambda>url. FetchResolves \<lparr> ok = False, statusText = ''Forbidden'', json = Inr [] \<rparr>)
         ''key''
         (initial_world \<lparr> cfg_model = None, cfg_prompt = None, cfg_examples = None \<rparr>))
     = Inl (Error ''Failed to fetch models: Forbidden'')"
  using
    listAvailableModels_transport_failure
      [of "\<lambda>url. FetchRejects (Error ''getaddrinfo ENOTFOUND'')" "''key''"
          "Error ''getaddrinfo ENOTFOUND''"
          "initial_world \<lparr> cfg_model = None, cfg_prompt = None, cfg_examples = None \<rparr>"
          "\<lparr> ok = False, statusText = ''Forbidden'', json = Inr [] \<rparr>"]
    listAvailableModels_transport_failure
      [of "\<lambda>url. FetchResolves \<lparr> ok = False, statusText = ''Forbidden'', json = Inr [] \<rparr>"
          "''key''" "Error ''getaddrinfo ENOTFOUND''"
          "initial_world \<lparr> cfg_model = None, cfg_prompt = None, cfg_examples = None \<rparr>"
          "\<lparr> ok = False, statusText = ''Forbidden'', json = Inr [] \<rparr>"]
  by simp

text \<open>
  C9. On a successful response, let the \<open>i\<close>-th retained entry have a name \<open>a @ models/ @ b\<close>
  in which no occurrence of \<open>models/\<close> starts inside \<open>a\<close>, so that the occurrence after \<open>a\<close>
  is the first one. Then the \<open>i\<close>-th returned name is \<open>a @ b\<close>: the first occurrence is
  dropped also when \<open>a\<close> is not empty, that is, when it is not a prefix, and \<open>b\<close> is kept
  whole, with every later occurrence of \<open>models/\<close> in it.
\<close>

theorem listAvailableModels_first_occurrence_only:
  assumes "fetch (models_url key) = FetchResolves response"
    and "ok response"
    and "json response = Inr models"
    and "i < length (filter (\<lambda>m. Array_includes (supportedGenerationMethods m)
                               ''generateContent'') models)"
    and "name (filter (\<lambda>m. Array_includes (supportedGenerationMethods m)
                         ''generateContent'') models ! i) = a @ ''models/'' @ b"
    and "\<forall>j<length a. \<not> prefix ''models/'' (drop j (a @ ''models/'' @ b))"
  shows "\<exists>names. fst (listAvailableModels fetch key w) = Inr names
           \<and> length names =
               length (filter (\<lambda>m. Array_includes (supportedGenerationMethods m)
                                 ''generateContent'') models)
           \<and> names ! i = a @ b"
proof -
  let ?retained = "filter (\<lambda>m. Array_includes (supportedGenerationMethods m)
                             ''generateContent'') models"
  let ?names = "map (\<lambda>m. String_replace (name m) ''models/'' []) ?retained"
  have res: "fst (listAvailableModels fetch key w) = Inr ?names"
    using assms(1-3) by (simp add: listAvailableModels_result fetch_models_ok)
  have "?names ! i = String_replace (name (?retained ! i)) ''models/'' []"
    using assms(4) by simp
  also have "\<dots> = String_replace (a @ ''models/'' @ b) ''models/'' []"
    using assms(5) by simp
  also have "\<dots> = a @ [] @ b"
    using assms(6) by (rule String_replace_first)
  finally have "?names ! i = a @ b" by simp
  with res show ?thesis by simp
qed

theorem listAvailableModels_first_occurrence_only_witness:
  "\<exists>names.
     fst (listAvailableModels
           (\<lambda>url. FetchResolves \<lparr> ok = True, statusText = ''OK'',
              json = Inr [\<lparr> name = ''models/a/models/b'', displayName = ''A'',
                           supportedGenerationMethods = [''generateContent''] \<rparr>,
                         \<lparr> name = ''models/embedding'', displayName = ''E'',
                           supportedGenerationMethods = [''embedContent''] \<rparr>,
                         \<lparr> name = ''x/models/foo/models/v2'', displayName = ''X'',
                           supportedGenerationMethods = [''countTokens'', ''generateContent''] \<rparr>]
              \<rparr>)
           ''key''
           (initial_world \<lparr> cfg_model = None, cfg_prompt = None, cfg_examples = None \<rparr>))
       = Inr names
     \<and> length names = 2 \<and> names ! 1 = ''x/foo/models/v2''"
proof -
  let ?models = "[\<lparr> name = ''models/a/models/b'', displayName = ''A'',
                     supportedGenerationMethods = [''generateContent''] \<rparr>,
                   \<lparr> name = ''models/embedding'', displayName = ''E'',
                     supportedGenerationMethods = [''embedContent''] \<rparr>,
                   \<lparr> name = ''x/models/foo/models/v2'', displayName = ''X'',
                     supportedGenerationMethods = [''countTokens'', ''generateContent''] \<rparr>]"
  let ?response = "\<lparr> ok = True, statusText = ''OK'', json = Inr ?models \<rparr>"
  let ?fetch = "\<lambda>url :: string. FetchResolves ?response"
  have retained: "filter (\<lambda>m. Array_includes (supportedGenerationMethods m)
                             ''generateContent'') ?models =
      [\<lparr> name = ''models/a/models/b'', displayName = ''A'',
         supportedGenerationMethods = [''generateContent''] \<rparr>,
       \<lparr> name = ''x/models/foo/models/v2'', displayName = ''X'',
         supportedGenerationMethods = [''countTokens'', ''generateContent''] \<rparr>]"
    by (simp add: Array_includes_def)
  have first: "\<forall>j<length ''x/''.
      \<not> prefix ''models/'' (drop j (''x/'' @ ''models/'' @ ''foo/models/v2''))"
    by (simp add: All_less_Suc)
  have "\<exists>names. fst (listAvailableModels ?fetch ''key''
            (initial_world \<lparr> cfg_model = None, cfg_prompt = None, cfg_examples = None \<rparr>))
          = Inr names
        \<and> length names =
            length (filter (\<lambda>m. Array_includes (supportedGenerationMethods m)
                              ''generateContent'') ?models)
        \<and> names ! 1 = ''x/'' @ ''foo/models/v2''"
    using first
    by (intro listAvailableModels_first_occurrence_only [where response = ?response])
       (simp_all add: Array_includes_def)
  then show ?thesis by (simp add: Array_includes_def numeral_2_eq_2)
qed

section \<open>The rewrite command\<close>

lemma rewrite_task_deprecated:
  assumes "secret h = Some key" and "key \<noteq> []"
    and "modelName (getRewriterConfig w key) = ''gemini-pro''"
  shows "rewrite_task h txt a w =
     (DeprecatedModelSelected,
      w\<lparr>trace := trace w @ ShowWarningMessage deprecated_warning [''Select Model'']
           # (if warning_choice h = Some ''Select Model''
              then [ExecuteCommand ''rewriter.selectModel''] else [])\<rparr>)"
  using assms by (simp add: rewrite_task_def Let_def emit_def)

text \<open>
  C4. In every invocation of the rewrite command in which the credential is present and
  the resolved model name is \<open>gemini-pro\<close>, no network request is issued: the invocation
  adds neither a catalog fetch nor a generation request to the effects. When the editor
  has a non-empty selection, so that the handler reaches the validation, it returns at
  the deprecated-model check: it only shows the warning and, when the user presses
  \<open>Select Model\<close>, dispatches the model-selection command, which then runs as a command
  of its own.
\<close>

theorem rewrite_command_deprecated_model:
  assumes "secret h = Some key" and "key \<noteq> []"
    and "modelName (getRewriterConfig w key) = ''gemini-pro''"
  shows "filter is_network_call (trace (snd (rewrite_command h a w))) =
           filter is_network_call (trace w)
         \<and> (activeTextEditor h = Some txt \<and> txt \<noteq> []
            \<longrightarrow> fst (rewrite_command h a w) = DeprecatedModelSelected
                \<and> trace (snd (rewrite_command h a w)) =
                    trace w @ ShowWarningMessage deprecated_warning [''Select Model'']
                      # (if warning_choice h = Some ''Select Model''
                         then [ExecuteCommand ''rewriter.selectModel''] else []))"
proof -
  have quiet: "filter is_network_call (trace (snd (rewrite_command h a w))) =
           filter is_network_call (trace w)"
    by (simp add: rewrite_command_def rewrite_task_deprecated [OF assms]
        split: option.splits)
  have halts: "fst (rewrite_command h a w) = DeprecatedModelSelected
        \<and> trace (snd (rewrite_command h a w)) =
            trace w @ ShowWarningMessage deprecated_warning [''Select Model'']
              # (if warning_choice h = Some ''Select Model''
                 then [ExecuteCommand ''rewriter.selectModel''] else [])"
    if "activeTextEditor h = Some txt" and "txt \<noteq> []"
    using that by (simp add: rewrite_command_def rewrite_task_deprecated [OF assms])
  from quiet halts show ?thesis by blast
qed

theorem rewrite_command_deprecated_model_witness:
  "fst (rewrite_command
         \<lparr> activeTextEditor = Some ''hello'', secret = Some ''key'',
           warning_choice = Some ''Select Model'',
           model_client = (\<lambda>k m parts. Inr ''HELLO''), edit = (\<lambda>s. None) \<rparr>
         None
         (initial_world \<lparr> cfg_model = Some ''gemini-pro'', cfg_prompt = None,
                          cfg_examples = None \<rparr>)) = DeprecatedModelSelected
   \<and> trace (snd (rewrite_command
         \<lparr> activeTextEditor = Some ''hello'', secret = Some ''key'',
           warning_choice = Some ''Select Model'',
           model_client = (\<lambda>k m parts. Inr ''HELLO''), edit = (\<lambda>s. None) \<rparr>
         None
         (initial_world \<lparr> cfg_model = Some ''gemini-pro'', cfg_prompt = None,
                          cfg_examples = None \<rparr>))) =
       [ShowWarningMessage deprecated_warning [''Select Model''],
        ExecuteCommand ''rewriter.selectModel'']"
proof -
  let ?h = "\<lparr> activeTextEditor = Some ''hello'', secret = Some ''key'',
           warning_choice = Some ''Select Model'',
           model_client = (\<lambda>k m parts. Inr ''HELLO''), edit = (\<lambda>s. None) \<rparr>"
  let ?w = "initial_world \<lparr> cfg_model = Some ''gemini-pro'', cfg_prompt = None,
                          cfg_examples = None \<rparr>"
  have resolved: "modelName (getRewriterConfig ?w ''key'') = ''gemini-pro''"
    by (simp add: modelName_getRewriterConfig initial_world_def lor_def lor_str_def
        truthy_def)
  have "secret ?h = Some ''key''" and "''key'' \<noteq> []"
    by simp_all
  from rewrite_command_deprecated_model [OF this resolved, of None "''hello''"]
  show ?thesis by (simp add: initial_world_def)
qed

text \<open>
  For comparison, a run with a valid model: the selected text \<open>hello\<close>, no instruction, no
  examples and a client that answers \<open>HELLO\<close>. The handler issues one generation request
  and then replaces the selection once.
\<close>

lemma rewrite_command_success_example:
  "rewrite_command
      \<lparr> activeTextEditor = Some ''hello'', secret = Some ''key'',
        warning_choice = None,
        model_client = (\<lambda>k m parts. Inr ''HELLO''), edit = (\<lambda>s. None) \<rparr>
      None
      (initial_world \<lparr> cfg_model = None, cfg_prompt = None, cfg_examples = None \<rparr>)
   = (Succeeded ''HELLO'',
      \<lparr> sessionModelName = None,
        store = \<lparr> cfg_model = None, cfg_prompt = None, cfg_examples = None \<rparr>,
        trace = [GenerateContent ''key'' ''gemini-2.0-flash'' [''input: hello'', ''output: ''],
                 EditorReplace ''HELLO''] \<rparr>)"
  by (simp add: rewrite_command_def rewrite_task_def getRewriterConfig_def Let_def
      initial_world_def lor_def lor_str_def lor_obj_def truthy_def DEFAULT_MODEL_NAME_def
      generateRewrite_def getGenerativeModel_def build_parts_def promptText_def
      Object_entries_def replaceSelection_def emit_def)

end
